theory Spec2Isabelle
  imports Complex_Main "HOL-Library.AList"
begin

section \<open>netchart: the metric engine and the stats panel\<close>

text \<open>
  A shallow embedding of \<^verbatim>\<open>netchart.py\<close>. Conventions:
  \<^item> a Python \<^verbatim>\<open>dict\<close> is an association list in insertion order (the order matters
    for \<^verbatim>\<open>next(iter(...))\<close> and for the order of the panel's lines); a snapshot that
    comes from a real \<^verbatim>\<open>dict\<close> has distinct keys;
  \<^item> the cumulative byte counters are Python integers, hence \<open>int\<close>;
  \<^item> speed values are Python floats (binary64). A float is represented by the rational
    it denotes (\<open>rat\<close>). \<^verbatim>\<open>calculate_speed\<close> rounds its quotient to the nearest
    binary64, as the true division of two Python integers does, so every sample in the
    state is the float of the source; comparisons and \<^verbatim>\<open>max\<close> of floats are exact. The
    arithmetic done on samples for display only (the sums of the panel, the factor
    \<^verbatim>\<open>1.1\<close> of the y axis, the quotients of the formatting functions) is modelled
    over the rationals, without rounding;
  \<^item> a Python \<^verbatim>\<open>str\<close> is a list of Unicode code points (\<open>nat list\<close>): the panel uses
    box-drawing characters, arrows and emoji, and \<^verbatim>\<open>len\<close>, \<^verbatim>\<open>ljust\<close> and
    \<^verbatim>\<open>center\<close> count code points;
  \<^item> the module-level \<^verbatim>\<open>interfaces_data\<close> is passed in and returned explicitly;
  \<^item> the clock (\<^verbatim>\<open>datetime.now()\<close>) and the link status (\<^verbatim>\<open>psutil.net_if_stats\<close>)
    are parameters; time is counted in microseconds, the resolution of \<^verbatim>\<open>datetime\<close>.
\<close>

subsection \<open>Data model\<close>

type_synonym snapshot = "(string \<times> (int \<times> int)) list"

text \<open>One value of the \<^verbatim>\<open>defaultdict\<close>: the dictionary built by the factory (lines 14-23).\<close>

record iface_data =
  bytes_sent :: "rat list"
  bytes_recv :: "rat list"
  timestamps :: "int list"
  peak_sent :: rat
  peak_recv :: rat
  total_sent :: int
  total_recv :: int
  start_time :: int

type_synonym interfaces = "(string \<times> iface_data) list"

text \<open>The factory of the \<^verbatim>\<open>defaultdict\<close>; \<open>t\<close> is the clock reading when it runs.\<close>

definition default_entry :: "int \<Rightarrow> iface_data" where
  "default_entry t =
     \<lparr>bytes_sent = [], bytes_recv = [], timestamps = [],
      peak_sent = 0, peak_recv = 0, total_sent = 0, total_recv = 0, start_time = t\<rparr>"

text \<open>
  \<^verbatim>\<open>interfaces_data[interface]\<close>: the stored entry, or a fresh one from the factory,
  which the \<^verbatim>\<open>defaultdict\<close> inserts (at the end of the insertion order).
\<close>

definition getitem :: "interfaces \<Rightarrow> string \<Rightarrow> int \<Rightarrow> iface_data" where
  "getitem data k t = (case map_of data k of Some e \<Rightarrow> e | None \<Rightarrow> default_entry t)"

subsection \<open>The metric engine\<close>

text \<open>Rounding to the nearest integer, a tie going to the even neighbour.\<close>

definition round_half_even :: "rat \<Rightarrow> int" where
  "round_half_even x =
     (let f = \<lfloor>x\<rfloor>; d = x - of_int f
      in if d < 1 / 2 then f else if 1 / 2 < d then f + 1 else if even f then f else f + 1)"

text \<open>
  The binary64 nearest to an integer. A binary64 has a significand of 53 bits: an integer
  of more bits loses its low bits, \<open>dropped_bits\<close> of them, and is rounded to the nearest
  multiple of that power of two, a tie going to the even significand.
\<close>

fun dropped_bits :: "nat \<Rightarrow> nat" where
  "dropped_bits m = (if m < 2 ^ 53 then 0 else Suc (dropped_bits (m div 2)))"

declare dropped_bits.simps [simp del]

definition int_to_binary64 :: "int \<Rightarrow> int" where
  "int_to_binary64 n =
     (let s = dropped_bits (nat \<bar>n\<bar>) in round_half_even (of_int n / 2 ^ s) * 2 ^ s)"

text \<open>
  \<^verbatim>\<open>(current - previous) / 1024\<close> on the integers that \<^verbatim>\<open>psutil\<close> returns: the
  subtraction is exact, and the true division gives the binary64 nearest to the quotient.
  The divisor is a power of two, so that float is the binary64 nearest to the difference,
  divided by 1024. (The exponent of the model is not bounded: a quotient of magnitude
  \<open>2^1024\<close> or more, where CPython raises \<^verbatim>\<open>OverflowError\<close>, is beyond any difference
  of the 64-bit counters of an operating system.)
\<close>

definition calculate_speed :: "int \<Rightarrow> int \<Rightarrow> rat" where
  "calculate_speed current previous = of_int (int_to_binary64 (current - previous)) / 1024"

text \<open>
  The body of the loop of \<^verbatim>\<open>update_data\<close> (lines 77-96) on the entry of one interface.
  \<^verbatim>\<open>pop(0)\<close> never raises here: each of the three lists was appended to just before.
\<close>

definition update_entry :: "int \<times> int \<Rightarrow> int \<times> int \<Rightarrow> int \<Rightarrow> iface_data \<Rightarrow> iface_data" where
  "update_entry cur prev history_size e =
     (let sent_speed = calculate_speed (fst cur) (fst prev);
          recv_speed = calculate_speed (snd cur) (snd prev);
          e1 = e\<lparr>peak_sent := max (peak_sent e) sent_speed,
                 peak_recv := max (peak_recv e) recv_speed,
                 total_sent := fst cur,
                 total_recv := snd cur,
                 bytes_sent := bytes_sent e @ [sent_speed],
                 bytes_recv := bytes_recv e @ [recv_speed],
                 timestamps := timestamps e @ [int (length (timestamps e))]\<rparr>
      in if int (length (timestamps e1)) > history_size
         then e1\<lparr>bytes_sent := tl (bytes_sent e1),
                 bytes_recv := tl (bytes_recv e1),
                 timestamps := map int [0..<length (tl (timestamps e1))]\<rparr>
         else e1)"

text \<open>
  One iteration of \<^verbatim>\<open>for interface in stats\<close>: nothing happens, and no entry is
  created, unless the interface is a key of \<^verbatim>\<open>previous_stats\<close>. \<open>clock k\<close> is the
  reading of the clock at the moment the factory runs for \<open>k\<close>.
\<close>

definition update_interface ::
  "snapshot \<Rightarrow> snapshot \<Rightarrow> int \<Rightarrow> (string \<Rightarrow> int) \<Rightarrow> string \<Rightarrow> interfaces \<Rightarrow> interfaces" where
  "update_interface stats previous_stats history_size clock k data =
     (case map_of previous_stats k of
        None \<Rightarrow> data
      | Some prev \<Rightarrow>
          (case map_of stats k of
             None \<Rightarrow> data
           | Some cur \<Rightarrow>
               AList.update k (update_entry cur prev history_size (getitem data k (clock k))) data))"

definition update_data ::
  "snapshot \<Rightarrow> snapshot \<Rightarrow> int \<Rightarrow> (string \<Rightarrow> int) \<Rightarrow> interfaces \<Rightarrow> interfaces" where
  "update_data stats previous_stats history_size clock data =
     fold (update_interface stats previous_stats history_size clock) (map fst stats) data"

text \<open>
  The state as the driver's loop builds it: \<^verbatim>\<open>main\<close> calls \<^verbatim>\<open>update_data\<close> once per
  tick, always with the same \<^verbatim>\<open>history\<close>. A run is a list of calls
  \<open>(stats, previous_stats, clock)\<close> applied in order; the driver's own runs, where the
  \<^verbatim>\<open>previous_stats\<close> of a tick is the \<^verbatim>\<open>stats\<close> of the tick before, are among them.
\<close>

type_synonym call = "snapshot \<times> snapshot \<times> (string \<Rightarrow> int)"

fun run :: "int \<Rightarrow> call list \<Rightarrow> interfaces \<Rightarrow> interfaces" where
  "run history_size [] data = data"
| "run history_size ((stats, previous_stats, clock) # cs) data =
     run history_size cs (update_data stats previous_stats history_size clock data)"

text \<open>
  The speed samples that a run computes for interface \<open>k\<close>, oldest first: one for every
  call in which \<open>k\<close> is a key of both snapshots. This list is not part of the program's
  state (the program keeps a window of it); it is what "every sample ever observed" means.
\<close>

fun observed_sent :: "string \<Rightarrow> call list \<Rightarrow> rat list" where
  "observed_sent k [] = []"
| "observed_sent k ((stats, previous_stats, clock) # cs) =
     (case (map_of stats k, map_of previous_stats k) of
        (Some cur, Some prev) \<Rightarrow> calculate_speed (fst cur) (fst prev) # observed_sent k cs
      | _ \<Rightarrow> observed_sent k cs)"

fun observed_recv :: "string \<Rightarrow> call list \<Rightarrow> rat list" where
  "observed_recv k [] = []"
| "observed_recv k ((stats, previous_stats, clock) # cs) =
     (case (map_of stats k, map_of previous_stats k) of
        (Some cur, Some prev) \<Rightarrow> calculate_speed (snd cur) (snd prev) # observed_recv k cs
      | _ \<Rightarrow> observed_recv k cs)"

text \<open>A clock that always reads 0, for the concrete examples below.\<close>

definition epoch :: "string \<Rightarrow> int" where
  "epoch k = 0"

subsection \<open>Python strings and number formatting\<close>

text \<open>The exceptions that the modelled code can raise.\<close>

datatype py_error = IndexError | StopIteration

type_synonym pystr = "nat list"

text \<open>The code points of a text written in ASCII (interface names are taken to be).\<close>

definition ascii :: "string \<Rightarrow> pystr" where
  "ascii s = map of_char s"

text \<open>The code points of the non-ASCII characters of the source, and the blank.\<close>

definition SPACE :: nat where "SPACE = 32"
definition ARROW_UP :: nat where "ARROW_UP = 8593"
definition ARROW_DOWN :: nat where "ARROW_DOWN = 8595"
definition BOX_H :: nat where "BOX_H = 9472"
definition BOX_V :: nat where "BOX_V = 9474"
definition BOX_TOP_LEFT :: nat where "BOX_TOP_LEFT = 9484"
definition BOX_TOP_RIGHT :: nat where "BOX_TOP_RIGHT = 9488"
definition BOX_BOTTOM_LEFT :: nat where "BOX_BOTTOM_LEFT = 9492"
definition BOX_BOTTOM_RIGHT :: nat where "BOX_BOTTOM_RIGHT = 9496"
definition BOX_DOUBLE_H :: nat where "BOX_DOUBLE_H = 9552"
definition RED_CIRCLE :: nat where "RED_CIRCLE = 128308"
definition GREEN_CIRCLE :: nat where "GREEN_CIRCLE = 128994"

text \<open>\<^verbatim>\<open>c * n\<close> for a one-character string \<open>c\<close>: empty when \<open>n\<close> is not positive.\<close>

definition repeat :: "nat \<Rightarrow> int \<Rightarrow> pystr" where
  "repeat c n = replicate (nat n) c"

text \<open>\<^verbatim>\<open>str.ljust\<close>: the text itself when it is already as long as the width.\<close>

definition ljust :: "pystr \<Rightarrow> int \<Rightarrow> pystr" where
  "ljust text width = text @ repeat SPACE (width - int (length text))"

text \<open>
  \<^verbatim>\<open>str.center\<close> as CPython pads: an odd margin in an odd width puts the extra blank
  on the left (\<^verbatim>\<open>left = marg / 2 + (marg & width & 1)\<close>).
\<close>

definition center :: "pystr \<Rightarrow> int \<Rightarrow> pystr" where
  "center text width =
     (let marg = width - int (length text)
      in if marg \<le> 0 then text
         else let left = marg div 2 + (if odd marg \<and> odd width then 1 else 0)
              in repeat SPACE left @ text @ repeat SPACE (marg - left))"

text \<open>The decimal digits of a natural number, as \<^verbatim>\<open>str\<close> prints them.\<close>

definition digit :: "nat \<Rightarrow> char" where
  "digit d = ''0123456789'' ! d"

fun string_of_nat :: "nat \<Rightarrow> string" where
  "string_of_nat n =
     (if n < 10 then [digit n] else string_of_nat (n div 10) @ [digit (n mod 10)])"

declare string_of_nat.simps [simp del]

text \<open>
  The format \<^verbatim>\<open>:.2f\<close>: the value rounded to two decimals, a tie going to the even
  neighbour (a float that prints as a tie is one exactly); the sign is printed for every
  negative value, also when it rounds to zero.
\<close>

definition format_2f :: "rat \<Rightarrow> string" where
  "format_2f x =
     (let n = nat (round_half_even (\<bar>x\<bar> * 100))
      in (if x < 0 then ''-'' else []) @ string_of_nat (n div 100) @ ''.'' @
         [digit (n mod 100 div 10), digit (n mod 10)])"

text \<open>The format \<^verbatim>\<open>:02d\<close>: zero-padded to two columns, the sign taking one of them.\<close>

definition format_02d :: "int \<Rightarrow> string" where
  "format_02d n =
     (if n < 0 then ''-'' @ string_of_nat (nat (- n))
      else if n < 10 then ''0'' @ string_of_nat (nat n)
      else string_of_nat (nat n))"

definition format_speed :: "rat \<Rightarrow> string" where
  "format_speed speed =
     (if speed \<ge> 1024 * 1024 then format_2f (speed / (1024 * 1024)) @ '' GB/s''
      else if speed \<ge> 1024 then format_2f (speed / 1024) @ '' MB/s''
      else format_2f speed @ '' KB/s'')"

definition format_bytes :: "rat \<Rightarrow> string" where
  "format_bytes bytes =
     (if bytes \<ge> 1024 * 1024 * 1024 then format_2f (bytes / (1024 * 1024 * 1024)) @ '' GB''
      else if bytes \<ge> 1024 * 1024 then format_2f (bytes / (1024 * 1024)) @ '' MB''
      else format_2f (bytes / 1024) @ '' KB'')"

subsection \<open>The stats panel\<close>

text \<open>\<^verbatim>\<open>xs[-1]\<close>: raises \<^verbatim>\<open>IndexError\<close> on the empty list.\<close>

fun py_last :: "'a list \<Rightarrow> py_error + 'a" where
  "py_last [] = Inl IndexError"
| "py_last (x # xs) = Inr (last (x # xs))"

text \<open>The six accumulators of lines 101-106.\<close>

record summary =
  sum_total_sent :: int
  sum_total_recv :: int
  max_peak_sent :: rat
  max_peak_recv :: rat
  current_sent :: rat
  current_recv :: rat

definition summary0 :: summary where
  "summary0 = \<lparr>sum_total_sent = 0, sum_total_recv = 0, max_peak_sent = 0, max_peak_recv = 0,
     current_sent = 0, current_recv = 0\<rparr>"

text \<open>
  The loop of lines 108-115 over \<^verbatim>\<open>interfaces_data.values()\<close>. An entry counts when its
  \<^verbatim>\<open>timestamps\<close> are not empty; the last sample of each history is then read.
\<close>

fun summarise :: "iface_data list \<Rightarrow> summary \<Rightarrow> py_error + summary" where
  "summarise [] acc = Inr acc"
| "summarise (d # ds) acc =
     (if timestamps d \<noteq> [] then
        (case py_last (bytes_sent d) of
           Inl err \<Rightarrow> Inl err
         | Inr last_sent \<Rightarrow>
             (case py_last (bytes_recv d) of
                Inl err \<Rightarrow> Inl err
              | Inr last_recv \<Rightarrow>
                  summarise ds
                    \<lparr>sum_total_sent = sum_total_sent acc + total_sent d,
                     sum_total_recv = sum_total_recv acc + total_recv d,
                     max_peak_sent = max (max_peak_sent acc) (peak_sent d),
                     max_peak_recv = max (max_peak_recv acc) (peak_recv d),
                     current_sent = current_sent acc + last_sent,
                     current_recv = current_recv acc + last_recv\<rparr>))
      else summarise ds acc)"

text \<open>
  The line that \<^verbatim>\<open>add_line(text, emoji_count)\<close> appends: the text left-justified to the
  panel width less the number of emoji, between two vertical bars.
\<close>

definition add_line :: "int \<Rightarrow> pystr \<Rightarrow> int \<Rightarrow> pystr" where
  "add_line panel_width text emoji_count =
     [BOX_V] @ ljust text (panel_width - emoji_count) @ [BOX_V]"

text \<open>
  The loop of lines 146-153: four lines for every entry whose \<^verbatim>\<open>timestamps\<close> are not empty.
  \<open>is_up\<close> stands for \<^verbatim>\<open>get_interface_status\<close>.
\<close>

fun interface_details :: "(string \<Rightarrow> bool) \<Rightarrow> int \<Rightarrow> interfaces \<Rightarrow> py_error + pystr list" where
  "interface_details is_up panel_width [] = Inr []"
| "interface_details is_up panel_width ((interface, d) # rest) =
     (if timestamps d \<noteq> [] then
        (case py_last (bytes_sent d) of
           Inl err \<Rightarrow> Inl err
         | Inr last_sent \<Rightarrow>
             (case py_last (bytes_recv d) of
                Inl err \<Rightarrow> Inl err
              | Inr last_recv \<Rightarrow>
                  (case interface_details is_up panel_width rest of
                     Inl err \<Rightarrow> Inl err
                   | Inr others \<Rightarrow>
                       Inr ([add_line panel_width [] 0,
                             add_line panel_width
                               ([SPACE, if is_up interface then GREEN_CIRCLE else RED_CIRCLE, SPACE] @
                                ascii interface @ ascii '':'') 1,
                             add_line panel_width
                               (ascii ''   Current: '' @ [ARROW_UP] @ ascii (format_speed last_sent)) 0,
                             add_line panel_width
                               (ascii ''           '' @ [ARROW_DOWN] @ ascii (format_speed last_recv)) 0]
                            @ others))))
      else interface_details is_up panel_width rest)"

text \<open>\<^verbatim>\<open>len([d for d in interfaces_data.values() if d['timestamps']])\<close>.\<close>

definition active_interfaces :: "interfaces \<Rightarrow> nat" where
  "active_interfaces data = length (filter (\<lambda>d. timestamps d \<noteq> []) (map snd data))"

text \<open>Python's \<^verbatim>\<open>%\<close> on floats, for a positive modulus.\<close>

definition py_mod :: "rat \<Rightarrow> rat \<Rightarrow> rat" where
  "py_mod x m = x - m * of_int \<lfloor>x / m\<rfloor>"

text \<open>
  The two lines of the duration (lines 161-166), from the elapsed microseconds:
  \<^verbatim>\<open>total_seconds()\<close>, then hours, minutes and seconds.
\<close>

definition duration_lines :: "int \<Rightarrow> int \<Rightarrow> pystr list" where
  "duration_lines panel_width elapsed =
     (let total_seconds = (of_int elapsed :: rat) / 1000000;
          hours = \<lfloor>total_seconds / 3600\<rfloor>;
          minutes = \<lfloor>py_mod total_seconds 3600 / 60\<rfloor>;
          seconds = \<lfloor>py_mod total_seconds 60\<rfloor>
      in [add_line panel_width (ascii '' Monitor Duration:'') 0,
          add_line panel_width
            (ascii (''   '' @ format_02d hours @ '':'' @ format_02d minutes @ '':'' @
                    format_02d seconds)) 0])"

text \<open>The loop of lines 169-170: blank lines until there are \<open>height - 1\<close> lines.\<close>

function fill_remaining :: "int \<Rightarrow> int \<Rightarrow> pystr list \<Rightarrow> pystr list" where
  "fill_remaining panel_width height lines =
     (if int (length lines) < height - 1
      then fill_remaining panel_width height (lines @ [add_line panel_width [] 0])
      else lines)"
  by pat_completeness auto

termination
  by (relation "measure (\<lambda>(panel_width, height, lines). nat (height - 1 - int (length lines)))") auto

declare fill_remaining.simps [simp del]

text \<open>
  \<^verbatim>\<open>create_stats_display(width, height)\<close>. \<open>is_up\<close> is the link status, \<open>now\<close> the clock
  reading of line 161 and \<open>data\<close> the module's \<^verbatim>\<open>interfaces_data\<close>. The result is the
  exception raised, or the lines returned. \<^verbatim>\<open>next(iter(...))\<close> raises
  \<^verbatim>\<open>StopIteration\<close> on a dictionary with no entry.
\<close>

definition create_stats_display ::
  "(string \<Rightarrow> bool) \<Rightarrow> int \<Rightarrow> interfaces \<Rightarrow> int \<Rightarrow> int \<Rightarrow> py_error + pystr list" where
  "create_stats_display is_up now data width height =
     (case summarise (map snd data) summary0 of
        Inl err \<Rightarrow> Inl err
      | Inr s \<Rightarrow>
          (let panel_width = width - 2;
               head =
                 [[BOX_TOP_LEFT] @ repeat BOX_H panel_width @ [BOX_TOP_RIGHT],
                  [BOX_V] @ center (ascii ''Network Summary'') panel_width @ [BOX_V],
                  [BOX_V] @ repeat BOX_DOUBLE_H panel_width @ [BOX_V],
                  [BOX_V] @ repeat SPACE panel_width @ [BOX_V],
                  add_line panel_width (ascii '' Total Transferred:'') 0,
                  add_line panel_width
                    (ascii ''   '' @ [ARROW_UP] @ ascii ('' '' @ format_bytes (of_int (sum_total_sent s)))) 0,
                  add_line panel_width
                    (ascii ''   '' @ [ARROW_DOWN] @ ascii ('' '' @ format_bytes (of_int (sum_total_recv s)))) 0,
                  add_line panel_width [] 0,
                  add_line panel_width (ascii '' Peak Throughput:'') 0,
                  add_line panel_width
                    (ascii ''   '' @ [ARROW_UP] @ ascii ('' '' @ format_speed (max_peak_sent s))) 0,
                  add_line panel_width
                    (ascii ''   '' @ [ARROW_DOWN] @ ascii ('' '' @ format_speed (max_peak_recv s))) 0,
                  add_line panel_width [] 0,
                  add_line panel_width (ascii '' Current Throughput:'') 0,
                  add_line panel_width
                    (ascii ''   '' @ [ARROW_UP] @ ascii ('' '' @ format_speed (current_sent s))) 0,
                  add_line panel_width
                    (ascii ''   '' @ [ARROW_DOWN] @ ascii ('' '' @ format_speed (current_recv s))) 0,
                  add_line panel_width [] 0,
                  add_line panel_width (ascii '' Interface Details:'') 0]
           in case interface_details is_up panel_width data of
                Inl err \<Rightarrow> Inl err
              | Inr details \<Rightarrow>
                  (let active =
                         [add_line panel_width [] 0,
                          add_line panel_width (ascii '' Active Interfaces:'') 0,
                          add_line panel_width (ascii (''   '' @ string_of_nat (active_interfaces data))) 0,
                          add_line panel_width [] 0]
                   in case data of
                        [] \<Rightarrow> Inl StopIteration
                      | (first, d) # rest \<Rightarrow>
                          Inr (fill_remaining panel_width height
                                 (head @ details @ active @
                                  duration_lines panel_width (now - start_time d))
                               @ [[BOX_BOTTOM_LEFT] @ repeat BOX_H panel_width @ [BOX_BOTTOM_RIGHT]]))))"

subsection \<open>The chart's y axis and the frame\<close>





text \<open>
  The rows that lines 238-241 print: row \<open>i\<close> is line \<open>i\<close> of the chart, then line \<open>i\<close>
  of the panel, each replaced by blanks where its list is too short; lines beyond
  \<open>height\<close> are not printed.
\<close>

definition compose_frame :: "pystr list \<Rightarrow> pystr list \<Rightarrow> int \<Rightarrow> int \<Rightarrow> int \<Rightarrow> pystr list" where
  "compose_frame chart_lines stats_lines chart_width stats_width height =
     map (\<lambda>i. (if i < length chart_lines then chart_lines ! i else repeat SPACE chart_width) @
               (if i < length stats_lines then stats_lines ! i else repeat SPACE stats_width))
         [0..<nat height]"

text \<open>A link status that reports every interface up, for the concrete examples below.\<close>

definition all_up :: "string \<Rightarrow> bool" where
  "all_up k = True"

section \<open>Properties of the metric engine\<close>

subsection \<open>The rounding of a sample\<close>

text \<open>
  A difference of at most \<open>2^53\<close> in magnitude is a binary64 itself: the quotient is
  then exact. Whatever the difference, rounding keeps its sign.
\<close>

lemma dropped_bits_small: "m < 2 ^ 53 \<Longrightarrow> dropped_bits m = 0"
  by (subst dropped_bits.simps) simp

lemma dropped_bits_large: "\<not> m < 2 ^ 53 \<Longrightarrow> dropped_bits m = Suc (dropped_bits (m div 2))"
  by (subst dropped_bits.simps) simp

lemma round_half_even_of_int: "round_half_even (of_int n) = n"
  by (simp add: round_half_even_def)

lemma int_to_binary64_exact:
  assumes "\<bar>n\<bar> \<le> 2 ^ 53"
  shows "int_to_binary64 n = n"
proof (cases "\<bar>n\<bar> < 2 ^ 53")
  case True
  then have "nat \<bar>n\<bar> < 2 ^ 53"
    by (simp add: nat_less_iff)
  then show ?thesis
    by (simp add: int_to_binary64_def dropped_bits_small round_half_even_of_int)
next
  case False
  with assms have n: "\<bar>n\<bar> = 2 ^ 53" by simp
  then have "nat \<bar>n\<bar> = 2 ^ 53"
    by (simp add: nat_power_eq)
  then have s: "dropped_bits (nat \<bar>n\<bar>) = 1"
    by (simp add: dropped_bits_large dropped_bits_small)
  from n have "even n"
    by (metis even_abs_add_iff even_add even_numeral even_power zero_less_numeral)
  then obtain h where h: "n = 2 * h" by (elim evenE)
  have half: "(of_int n :: rat) / 2 = of_int h"
    by (simp add: h)
  have "int_to_binary64 n = round_half_even (of_int n / 2) * 2"
    by (simp add: int_to_binary64_def s)
  also have "\<dots> = round_half_even (of_int h) * 2"
    by (simp only: half)
  also have "\<dots> = n"
    by (simp add: round_half_even_of_int h)
  finally show ?thesis .
qed

lemma calculate_speed_exact:
  "\<bar>current - previous\<bar> \<le> 2 ^ 53 \<Longrightarrow>
   calculate_speed current previous = of_int (current - previous) / 1024"
  by (simp add: calculate_speed_def int_to_binary64_exact)





lemma floor_rat_numeral:
  "\<lfloor>numeral a / numeral b :: rat\<rfloor> = numeral a div numeral b"
  by (metis floor_divide_of_int_eq of_int_numeral)

subsection \<open>What a call leaves alone\<close>

lemma update_interface_other:
  "i \<noteq> k \<or> map_of previous_stats i = None \<or> map_of stats i = None \<Longrightarrow>
   map_of (update_interface stats previous_stats history_size clock k data) i = map_of data i"
  by (auto simp: update_interface_def update_conv' split: option.splits)

lemma update_interface_same:
  "map_of previous_stats k = Some prev \<Longrightarrow> map_of stats k = Some cur \<Longrightarrow>
   map_of (update_interface stats previous_stats history_size clock k data) k =
     Some (update_entry cur prev history_size (getitem data k (clock k)))"
  by (simp add: update_interface_def update_conv')

lemma fold_update_interface_other:
  "i \<notin> set ks \<or> map_of previous_stats i = None \<or> map_of stats i = None \<Longrightarrow>
   map_of (fold (update_interface stats previous_stats history_size clock) ks data) i = map_of data i"
  by (induction ks arbitrary: data) (auto simp: update_interface_other)

lemma update_data_other:
  "map_of stats i = None \<or> map_of previous_stats i = None \<Longrightarrow>
   map_of (update_data stats previous_stats history_size clock data) i = map_of data i"
  unfolding update_data_def
  by (rule fold_update_interface_other) auto

lemma fold_preserves:
  "(\<And>k d. P d \<Longrightarrow> P (f k d)) \<Longrightarrow> P d \<Longrightarrow> P (fold f ks d)"
  by (induction ks arbitrary: d) auto

lemma update_interface_keeps:
  "map_of data i \<noteq> None \<Longrightarrow>
   map_of (update_interface stats previous_stats history_size clock k data) i \<noteq> None"
  by (auto simp: update_interface_def update_conv' split: option.splits)

lemma fold_update_interface_keeps:
  "map_of data i \<noteq> None \<Longrightarrow>
   map_of (fold (update_interface stats previous_stats history_size clock) ks data) i \<noteq> None"
  by (rule fold_preserves) (auto simp: update_interface_keeps)

lemma fold_update_interface_creates:
  "i \<in> set ks \<Longrightarrow> map_of previous_stats i \<noteq> None \<Longrightarrow> map_of stats i \<noteq> None \<Longrightarrow>
   map_of (fold (update_interface stats previous_stats history_size clock) ks data) i \<noteq> None"
proof (induction ks arbitrary: data)
  case Nil
  then show ?case by simp
next
  case (Cons j ks)
  show ?case
  proof (cases "j = i")
    case True
    with Cons.prems have "map_of (update_interface stats previous_stats history_size clock j data) i \<noteq> None"
      by (auto simp: update_interface_same)
    then show ?thesis
      by (simp add: fold_update_interface_keeps)
  next
    case False
    with Cons show ?thesis by simp
  qed
qed

lemma update_data_creates:
  "map_of previous_stats i \<noteq> None \<Longrightarrow> map_of stats i \<noteq> None \<Longrightarrow>
   map_of (update_data stats previous_stats history_size clock data) i \<noteq> None"
  unfolding update_data_def
  by (rule fold_update_interface_creates) (auto dest: map_of_SomeD intro: rev_image_eqI)

text \<open>
  C7. An interface that is a key of the current snapshot but not of the previous one gets
  no sample and no entry: its slot in the state is exactly what it was. An interface with
  no entry has one after the call if and only if it is a key of both snapshots.
\<close>

theorem first_sighting_skipped:
  "(map_of previous_stats k = None \<longrightarrow>
      map_of (update_data stats previous_stats history_size clock data) k = map_of data k) \<and>
   (map_of data k = None \<longrightarrow>
      (map_of (update_data stats previous_stats history_size clock data) k \<noteq> None) =
      (map_of stats k \<noteq> None \<and> map_of previous_stats k \<noteq> None))"
proof (intro conjI impI)
  assume "map_of previous_stats k = None"
  then show "map_of (update_data stats previous_stats history_size clock data) k = map_of data k"
    by (simp add: update_data_other)
next
  assume none: "map_of data k = None"
  show "(map_of (update_data stats previous_stats history_size clock data) k \<noteq> None) =
      (map_of stats k \<noteq> None \<and> map_of previous_stats k \<noteq> None)"
  proof (cases "map_of stats k \<noteq> None \<and> map_of previous_stats k \<noteq> None")
    case True
    then show ?thesis by (simp add: update_data_creates)
  next
    case False
    then have "map_of stats k = None \<or> map_of previous_stats k = None"
      by blast
    then have "map_of (update_data stats previous_stats history_size clock data) k = map_of data k"
      by (rule update_data_other)
    with none False show ?thesis by simp
  qed
qed

theorem first_sighting_skipped_witness:
  "map_of ([] :: snapshot) ''eth0'' = None \<and> map_of ([] :: interfaces) ''eth0'' = None \<and>
   map_of (update_data [(''eth0'', (1024, 2048))] [] 60 epoch []) ''eth0'' = None"
  using first_sighting_skipped [where previous_stats = "[]" and k = "''eth0''" and data = "[]"
      and stats = "[(''eth0'', (1024, 2048))]" and history_size = 60 and clock = epoch]
  by simp

text \<open>
  C8. An interface that has an entry and is not a key of the current snapshot keeps its
  entry, with every field as it was: the entry is neither removed nor changed.
\<close>

theorem absent_interface_frozen:
  assumes "map_of data k = Some e" and "map_of stats k = None"
  shows "map_of (update_data stats previous_stats history_size clock data) k = Some e"
proof -
  from assms(2) have "map_of stats k = None \<or> map_of previous_stats k = None"
    by simp
  then have "map_of (update_data stats previous_stats history_size clock data) k = map_of data k"
    by (rule update_data_other)
  with assms(1) show ?thesis
    by simp
qed

theorem absent_interface_frozen_witness:
  "map_of [(''wlan0'', default_entry 7)] ''wlan0'' = Some (default_entry 7) \<and>
   map_of [(''eth0'', (2048 :: int, 4096 :: int))] ''wlan0'' = None \<and>
   map_of (update_data [(''eth0'', (2048, 4096))] [(''eth0'', (1024, 2048))] 60 epoch
             [(''wlan0'', default_entry 7)]) ''wlan0'' = Some (default_entry 7)"
  using absent_interface_frozen [where data = "[(''wlan0'', default_entry 7)]" and k = "''wlan0''"
      and e = "default_entry 7" and stats = "[(''eth0'', (2048, 4096))]"
      and previous_stats = "[(''eth0'', (1024, 2048))]" and history_size = 60 and clock = epoch]
  by simp

subsection \<open>Invariants of every entry of a run\<close>

lemma update_interface_entries:
  assumes "\<And>t. P (default_entry t)"
    and "\<And>cur prev e. P e \<Longrightarrow> P (update_entry cur prev history_size e)"
    and "\<forall>k e. map_of data k = Some e \<longrightarrow> P e"
  shows "\<forall>k e. map_of (update_interface stats previous_stats history_size clock j data) k = Some e \<longrightarrow> P e"
  using assms
  by (auto simp: update_interface_def update_conv' getitem_def split: option.splits if_splits)

lemma update_data_entries:
  assumes "\<And>t. P (default_entry t)"
    and "\<And>cur prev e. P e \<Longrightarrow> P (update_entry cur prev history_size e)"
    and "\<forall>k e. map_of data k = Some e \<longrightarrow> P e"
  shows "\<forall>k e. map_of (update_data stats previous_stats history_size clock data) k = Some e \<longrightarrow> P e"
  unfolding update_data_def
proof (rule fold_preserves [where P = "\<lambda>d. \<forall>k e. map_of d k = Some e \<longrightarrow> P e"])
  show "\<forall>k e. map_of data k = Some e \<longrightarrow> P e"
    by (rule assms(3))
  show "\<forall>k e. map_of (update_interface stats previous_stats history_size clock j d) k = Some e \<longrightarrow> P e"
    if "\<forall>k e. map_of d k = Some e \<longrightarrow> P e" for j d
    by (rule update_interface_entries [OF assms(1,2) that])
qed

lemma run_entries:
  assumes "\<And>t. P (default_entry t)"
    and "\<And>cur prev e. P e \<Longrightarrow> P (update_entry cur prev history_size e)"
    and "\<forall>k e. map_of data k = Some e \<longrightarrow> P e"
  shows "\<forall>k e. map_of (run history_size calls data) k = Some e \<longrightarrow> P e"
  using assms(3)
proof (induction calls arbitrary: data)
  case Nil
  then show ?case by simp
next
  case (Cons c calls)
  obtain stats previous_stats clock where c: "c = (stats, previous_stats, clock)"
    by (cases c) auto
  have "\<forall>k e. map_of (update_data stats previous_stats history_size clock data) k = Some e \<longrightarrow> P e"
    by (rule update_data_entries [OF assms(1,2) Cons.prems])
  then show ?case
    unfolding c run.simps by (rule Cons.IH)
qed


lemma update_entry_lockstep:
  assumes "0 \<le> history_size"
    and "length (bytes_sent e) = length (timestamps e) \<and> length (bytes_recv e) = length (timestamps e) \<and>
         int (length (timestamps e)) \<le> history_size"
  shows "length (bytes_sent (update_entry cur prev history_size e)) =
           length (timestamps (update_entry cur prev history_size e)) \<and>
         length (bytes_recv (update_entry cur prev history_size e)) =
           length (timestamps (update_entry cur prev history_size e)) \<and>
         int (length (timestamps (update_entry cur prev history_size e))) \<le> history_size"
  using assms by (auto simp: update_entry_def Let_def)

text \<open>
  Three concrete calls, evaluated: the two snapshots of the spec's scenario, the same
  call with a negative window length, and a call in which both counters went down.
\<close>

lemma update_two_snapshots:
  "update_data [(''eth0'', (2048, 4096))] [(''eth0'', (1024, 2048))] 60 epoch [] =
   [(''eth0'', \<lparr>bytes_sent = [1], bytes_recv = [2], timestamps = [0], peak_sent = 1, peak_recv = 2,
      total_sent = 2048, total_recv = 4096, start_time = 0\<rparr>)]"
  by (simp add: update_data_def update_interface_def update_entry_def getitem_def default_entry_def
      calculate_speed_exact epoch_def Let_def)

lemma update_negative_history:
  "update_data [(''eth0'', (2048, 4096))] [(''eth0'', (1024, 2048))] (- 1) epoch [] =
   [(''eth0'', \<lparr>bytes_sent = [], bytes_recv = [], timestamps = [], peak_sent = 1, peak_recv = 2,
      total_sent = 2048, total_recv = 4096, start_time = 0\<rparr>)]"
  by (simp add: update_data_def update_interface_def update_entry_def getitem_def default_entry_def
      calculate_speed_exact epoch_def Let_def)

lemma update_counter_reset:
  "update_data [(''eth0'', (0, 0))] [(''eth0'', (1024, 2048))] 60 epoch [] =
   [(''eth0'', \<lparr>bytes_sent = [- 1], bytes_recv = [- 2], timestamps = [0], peak_sent = 0, peak_recv = 0,
      total_sent = 0, total_recv = 0, start_time = 0\<rparr>)]"
  by (simp add: update_data_def update_interface_def update_entry_def getitem_def default_entry_def
      calculate_speed_exact epoch_def Let_def)

text \<open>
  C1 (amended). From the empty state, after any number of calls with one fixed
  non-negative \<open>history_size\<close>, the three lists of every entry have the same length,
  and that length is at most \<open>history_size\<close>. The hypothesis \<open>0 \<le> history_size\<close>
  is needed: \<^verbatim>\<open>--history\<close> accepts any integer, the code evicts one element per call
  and an empty list is still longer than a negative bound.
\<close>

theorem history_lockstep_bounded:
  assumes "0 \<le> history_size" and "map_of (run history_size calls []) k = Some e"
  shows "length (bytes_sent e) = length (timestamps e) \<and>
         length (bytes_recv e) = length (timestamps e) \<and>
         int (length (timestamps e)) \<le> history_size"
proof -
  let ?P = "\<lambda>e. length (bytes_sent e) = length (timestamps e) \<and>
         length (bytes_recv e) = length (timestamps e) \<and>
         int (length (timestamps e)) \<le> history_size"
  have "\<forall>k e. map_of (run history_size calls []) k = Some e \<longrightarrow> ?P e"
  proof (rule run_entries)
    show "?P (default_entry t)" for t
      using assms(1) by (simp add: default_entry_def)
    show "?P (update_entry cur prev history_size e)" if "?P e" for cur prev e
      using update_entry_lockstep [OF assms(1) that] .
    show "\<forall>k e. map_of ([] :: interfaces) k = Some e \<longrightarrow> ?P e"
      by simp
  qed
  with assms(2) show ?thesis by blast
qed

theorem history_lockstep_bounded_witness:
  "(0 :: int) \<le> 60 \<and>
   map_of (run 60 [([(''eth0'', (2048, 4096))], [(''eth0'', (1024, 2048))], epoch)] []) ''eth0'' =
     Some \<lparr>bytes_sent = [1], bytes_recv = [2], timestamps = [0], peak_sent = 1, peak_recv = 2,
       total_sent = 2048, total_recv = 4096, start_time = 0\<rparr> \<and>
   length [1 :: rat] = length [0 :: int] \<and> length [2 :: rat] = length [0 :: int] \<and>
   int (length [0 :: int]) \<le> 60"
  using history_lockstep_bounded [where history_size = 60 and k = "''eth0''"
      and calls = "[([(''eth0'', (2048, 4096))], [(''eth0'', (1024, 2048))], epoch)]"
      and e = "\<lparr>bytes_sent = [1], bytes_recv = [2], timestamps = [0], peak_sent = 1, peak_recv = 2,
       total_sent = 2048, total_recv = 4096, start_time = 0\<rparr>"]
  by (simp add: update_two_snapshots)

text \<open>
  The claim as stated, for every \<open>history_size\<close>, fails at \<open>history_size = -1\<close>: the
  entry of \<^verbatim>\<open>eth0\<close> exists, its lists are empty, and \<open>0 \<le> -1\<close> is false.
\<close>

theorem history_lockstep_bounded_counterexample:
  "map_of (run (- 1) [([(''eth0'', (2048, 4096))], [(''eth0'', (1024, 2048))], epoch)] []) ''eth0'' =
     Some \<lparr>bytes_sent = [], bytes_recv = [], timestamps = [], peak_sent = 1, peak_recv = 2,
       total_sent = 2048, total_recv = 4096, start_time = 0\<rparr> \<and>
   \<not> int (length (timestamps \<lparr>bytes_sent = [], bytes_recv = [], timestamps = [], peak_sent = 1,
       peak_recv = 2, total_sent = 2048, total_recv = 4096, start_time = 0\<rparr>)) \<le> - 1"
  by (simp add: update_negative_history)



subsection \<open>The sample of a call, and the peaks\<close>

lemma update_interface_distinct_key:
  "j \<noteq> k \<Longrightarrow> map_of (update_interface stats previous_stats history_size clock j data) k = map_of data k"
  by (simp add: update_interface_other)







lemma peak_default: "peak_sent (getitem data k t) = peak_sent (getitem data k t')"
  "peak_recv (getitem data k t) = peak_recv (getitem data k t')"
  by (simp_all add: getitem_def default_entry_def split: option.splits)

lemma update_entry_peak:
  "peak_sent (update_entry cur prev history_size e) = max (peak_sent e) (calculate_speed (fst cur) (fst prev))"
  "peak_recv (update_entry cur prev history_size e) = max (peak_recv e) (calculate_speed (snd cur) (snd prev))"
  by (simp_all add: update_entry_def Let_def)

lemma update_interface_peak:
  "peak_sent (getitem (update_interface stats previous_stats history_size clock j data) k t) =
     (case (map_of stats k, map_of previous_stats k) of
        (Some cur, Some prev) \<Rightarrow>
          if j = k then max (peak_sent (getitem data k t)) (calculate_speed (fst cur) (fst prev))
          else peak_sent (getitem data k t)
      | _ \<Rightarrow> peak_sent (getitem data k t))"
  "peak_recv (getitem (update_interface stats previous_stats history_size clock j data) k t) =
     (case (map_of stats k, map_of previous_stats k) of
        (Some cur, Some prev) \<Rightarrow>
          if j = k then max (peak_recv (getitem data k t)) (calculate_speed (snd cur) (snd prev))
          else peak_recv (getitem data k t)
      | _ \<Rightarrow> peak_recv (getitem data k t))"
  by (auto simp: update_interface_def getitem_def update_conv' update_entry_peak default_entry_def
           split: option.splits)

lemma fold_update_interface_peak:
  "peak_sent (getitem (fold (update_interface stats previous_stats history_size clock) ks data) k t) =
     (case (map_of stats k, map_of previous_stats k) of
        (Some cur, Some prev) \<Rightarrow>
          if k \<in> set ks then max (peak_sent (getitem data k t)) (calculate_speed (fst cur) (fst prev))
          else peak_sent (getitem data k t)
      | _ \<Rightarrow> peak_sent (getitem data k t))"
  "peak_recv (getitem (fold (update_interface stats previous_stats history_size clock) ks data) k t) =
     (case (map_of stats k, map_of previous_stats k) of
        (Some cur, Some prev) \<Rightarrow>
          if k \<in> set ks then max (peak_recv (getitem data k t)) (calculate_speed (snd cur) (snd prev))
          else peak_recv (getitem data k t)
      | _ \<Rightarrow> peak_recv (getitem data k t))"
  by (induction ks arbitrary: data) (auto simp: update_interface_peak split: option.splits)

lemma update_data_peak:
  "peak_sent (getitem (update_data stats previous_stats history_size clock data) k t) =
     (case (map_of stats k, map_of previous_stats k) of
        (Some cur, Some prev) \<Rightarrow> max (peak_sent (getitem data k t)) (calculate_speed (fst cur) (fst prev))
      | _ \<Rightarrow> peak_sent (getitem data k t))"
  "peak_recv (getitem (update_data stats previous_stats history_size clock data) k t) =
     (case (map_of stats k, map_of previous_stats k) of
        (Some cur, Some prev) \<Rightarrow> max (peak_recv (getitem data k t)) (calculate_speed (snd cur) (snd prev))
      | _ \<Rightarrow> peak_recv (getitem data k t))"
  unfolding update_data_def fold_update_interface_peak
  by (auto split: option.splits dest!: map_of_SomeD intro: rev_image_eqI)

lemma run_peak:
  "peak_sent (getitem (run history_size calls data) k t) =
     fold max (observed_sent k calls) (peak_sent (getitem data k t))"
  "peak_recv (getitem (run history_size calls data) k t) =
     fold max (observed_recv k calls) (peak_recv (getitem data k t))"
  by (induction history_size calls data rule: run.induct)
     (auto simp: update_data_peak max.commute split: option.splits)

lemma fold_max_Max: "fold max xs (x :: rat) = Max (insert x (set xs))"
  using Max.set_eq_fold [of x xs] by simp

text \<open>
  C3 (amended). After any run from the empty state, the peaks of an entry are the maximum
  of \<open>0\<close> and of every sample computed for that interface during the run (not only those
  still in the window): the factory starts both peaks at \<open>0\<close>.
\<close>

theorem peak_is_lifetime_maximum:
  assumes "map_of (run history_size calls []) k = Some e"
  shows "peak_sent e = Max (insert 0 (set (observed_sent k calls))) \<and>
         peak_recv e = Max (insert 0 (set (observed_recv k calls)))"
proof -
  from assms have e: "getitem (run history_size calls []) k 0 = e"
    by (simp add: getitem_def)
  have "peak_sent (getitem (run history_size calls []) k 0) = fold max (observed_sent k calls) 0"
    "peak_recv (getitem (run history_size calls []) k 0) = fold max (observed_recv k calls) 0"
    unfolding run_peak by (simp_all add: getitem_def default_entry_def)
  then show ?thesis
    unfolding e by (simp add: fold_max_Max)
qed

theorem peak_is_lifetime_maximum_witness:
  "map_of (run 60 [([(''eth0'', (2048, 4096))], [(''eth0'', (1024, 2048))], epoch)] []) ''eth0'' =
     Some \<lparr>bytes_sent = [1], bytes_recv = [2], timestamps = [0], peak_sent = 1, peak_recv = 2,
       total_sent = 2048, total_recv = 4096, start_time = 0\<rparr> \<and>
   (1 :: rat) = Max (insert 0 (set (observed_sent ''eth0''
       [([(''eth0'', (2048, 4096))], [(''eth0'', (1024, 2048))], epoch)]))) \<and>
   (2 :: rat) = Max (insert 0 (set (observed_recv ''eth0''
       [([(''eth0'', (2048, 4096))], [(''eth0'', (1024, 2048))], epoch)])))"
  using peak_is_lifetime_maximum [where history_size = 60 and k = "''eth0''"
      and calls = "[([(''eth0'', (2048, 4096))], [(''eth0'', (1024, 2048))], epoch)]"
      and e = "\<lparr>bytes_sent = [1], bytes_recv = [2], timestamps = [0], peak_sent = 1, peak_recv = 2,
       total_sent = 2048, total_recv = 4096, start_time = 0\<rparr>"]
  by (simp add: update_two_snapshots)

text \<open>
  The claim as stated, that the peak is the maximum of the observed samples, fails when
  every sample is negative: after one call in which the counters of \<^verbatim>\<open>eth0\<close> went
  down, the only sent sample is \<open>-1\<close> and \<^verbatim>\<open>peak_sent\<close> is \<open>0\<close>.
\<close>

theorem peak_is_lifetime_maximum_counterexample:
  "observed_sent ''eth0'' [([(''eth0'', (0, 0))], [(''eth0'', (1024, 2048))], epoch)] = [- 1] \<and>
   map_of (run 60 [([(''eth0'', (0, 0))], [(''eth0'', (1024, 2048))], epoch)] []) ''eth0'' =
     Some \<lparr>bytes_sent = [- 1], bytes_recv = [- 2], timestamps = [0], peak_sent = 0, peak_recv = 0,
       total_sent = 0, total_recv = 0, start_time = 0\<rparr> \<and>
   peak_sent \<lparr>bytes_sent = [- 1], bytes_recv = [- 2], timestamps = [0], peak_sent = 0, peak_recv = 0,
       total_sent = 0, total_recv = 0, start_time = 0\<rparr> \<noteq>
   Max (set (observed_sent ''eth0'' [([(''eth0'', (0, 0))], [(''eth0'', (1024, 2048))], epoch)]))"
  by (simp add: update_counter_reset calculate_speed_exact)

section \<open>Properties of the panel and of the chart\<close>

subsection \<open>Formatting\<close>

text \<open>
  The digits of a number, one unfolding at a time: what the simplifier needs, with the
  floor of a quotient of numerals, to evaluate a formatted number.
\<close>

lemma string_of_nat_digit: "n < 10 \<Longrightarrow> string_of_nat n = [digit n]"
  by (subst string_of_nat.simps) simp

lemma string_of_nat_more:
  "\<not> n < 10 \<Longrightarrow> string_of_nat n = string_of_nat (n div 10) @ [digit (n mod 10)]"
  by (subst string_of_nat.simps) simp

text \<open>
  C9. The threshold between the two units is exact: \<open>1024 * 1024 - 1\<close> bytes are
  rendered in KB (as \<^verbatim>\<open>1024.00 KB\<close>, the quotient \<open>1023.999...\<close> rounded to two
  decimals) and \<open>1024 * 1024\<close> bytes are rendered as \<^verbatim>\<open>1.00 MB\<close>. Both quotients are
  exact in binary floating point.
\<close>

theorem format_bytes_boundary:
  "format_bytes (1024 * 1024 - 1) = ''1024.00 KB'' \<and> format_bytes (1024 * 1024) = ''1.00 MB''"
proof
  have "round_half_even (\<bar>(1024 * 1024 - 1) / 1024\<bar> * 100) = 102400"
    by (simp add: round_half_even_def Let_def floor_rat_numeral)
  then show "format_bytes (1024 * 1024 - 1) = ''1024.00 KB''"
    by (simp add: format_bytes_def format_2f_def string_of_nat_digit string_of_nat_more digit_def)
next
  have "round_half_even (\<bar>1024 * 1024 / (1024 * 1024)\<bar> * 100) = 100"
    by (simp add: round_half_even_def Let_def)
  then show "format_bytes (1024 * 1024) = ''1.00 MB''"
    by (simp add: format_bytes_def format_2f_def string_of_nat_digit string_of_nat_more digit_def)
qed

subsection \<open>The height of the panel\<close>

lemma py_last_nonempty: "xs \<noteq> [] \<Longrightarrow> py_last xs = Inr (last xs)"
  by (cases xs) simp_all

lemma summarise_returns:
  assumes "\<forall>d \<in> set ds. length (bytes_sent d) = length (timestamps d) \<and>
             length (bytes_recv d) = length (timestamps d)"
  shows "\<exists>s. summarise ds acc = Inr s"
  using assms
proof (induction ds arbitrary: acc)
  case Nil
  then show ?case by simp
next
  case (Cons d ds)
  show ?case
  proof (cases "timestamps d = []")
    case True
    with Cons show ?thesis by simp
  next
    case False
    with Cons.prems have "bytes_sent d \<noteq> []" "bytes_recv d \<noteq> []"
      by auto
    with False Cons show ?thesis
      by (simp add: py_last_nonempty)
  qed
qed

lemma interface_details_returns:
  assumes "\<forall>(k, d) \<in> set data. length (bytes_sent d) = length (timestamps d) \<and>
             length (bytes_recv d) = length (timestamps d)"
  shows "\<exists>ls. interface_details is_up panel_width data = Inr ls \<and>
           length ls = 4 * active_interfaces data"
  using assms
proof (induction data)
  case Nil
  then show ?case by (simp add: active_interfaces_def)
next
  case (Cons p data)
  obtain k d where p: "p = (k, d)" by (cases p)
  from Cons obtain ls where ls: "interface_details is_up panel_width data = Inr ls"
    "length ls = 4 * active_interfaces data"
    by auto
  show ?case
  proof (cases "timestamps d = []")
    case True
    with ls p show ?thesis by (simp add: active_interfaces_def)
  next
    case False
    with Cons.prems p have "bytes_sent d \<noteq> []" "bytes_recv d \<noteq> []"
      by auto
    with False ls p show ?thesis
      by (simp add: active_interfaces_def py_last_nonempty)
  qed
qed

lemma length_fill_remaining:
  "int (length (fill_remaining panel_width height lines)) = max (int (length lines)) (height - 1)"
proof (induction panel_width height lines rule: fill_remaining.induct)
  case (1 panel_width height lines)
  show ?case
  proof (cases "int (length lines) < height - 1")
    case True
    with "1" show ?thesis
      by (subst fill_remaining.simps) simp
  next
    case False
    then show ?thesis
      by (subst fill_remaining.simps) simp
  qed
qed

lemma length_duration_lines: "length (duration_lines panel_width elapsed) = 2"
  by (simp add: duration_lines_def Let_def)

lemma create_stats_display_empty:
  "create_stats_display is_up now [] width height = Inl StopIteration"
  by (simp add: create_stats_display_def Let_def)

lemma create_stats_display_length:
  assumes "data \<noteq> []"
    and "\<forall>(k, d) \<in> set data. length (bytes_sent d) = length (timestamps d) \<and>
           length (bytes_recv d) = length (timestamps d)"
  shows "\<exists>lines. create_stats_display is_up now data width height = Inr lines \<and>
           int (length lines) = max height (24 + 4 * int (active_interfaces data))"
proof -
  from assms(2) have "\<forall>d \<in> set (map snd data). length (bytes_sent d) = length (timestamps d) \<and>
             length (bytes_recv d) = length (timestamps d)"
    by auto
  then obtain s where s: "summarise (map snd data) summary0 = Inr s"
    using summarise_returns by blast
  obtain ls where ls: "interface_details is_up (width - 2) data = Inr ls"
    "length ls = 4 * active_interfaces data"
    using interface_details_returns [OF assms(2)] by blast
  obtain k d rest where data: "data = (k, d) # rest"
    using assms(1) by (cases data) auto
  show ?thesis
    unfolding create_stats_display_def Let_def s ls(1) sum.case
    unfolding data list.case prod.case
    by (simp add: length_fill_remaining length_duration_lines ls(2) data [symmetric])
qed


text \<open>
  The frame has \<open>height\<close> rows whatever the panel's length, and the lines of a panel
  beyond the first \<open>height\<close> are not printed.
\<close>

lemma length_compose_frame:
  "length (compose_frame chart_lines stats_lines chart_width stats_width height) = nat height"
  by (simp add: compose_frame_def)

lemma compose_frame_ignores_extra:
  assumes "nat height \<le> length stats_lines"
  shows "compose_frame chart_lines (stats_lines @ extra) chart_width stats_width height =
         compose_frame chart_lines stats_lines chart_width stats_width height"
  using assms by (simp add: compose_frame_def nth_append)




text \<open>
  C10. With no entry in the state, \<^verbatim>\<open>create_stats_display\<close> raises
  \<^verbatim>\<open>StopIteration\<close> (from \<^verbatim>\<open>next(iter(...))\<close> on line 161) for every width, height,
  clock and link status; hence a call that returns a panel had a state with an entry.
\<close>

theorem empty_state_raises:
  "create_stats_display is_up now [] width height = Inl StopIteration \<and>
   ((\<exists>lines. create_stats_display is_up now data width height = Inr lines) \<longrightarrow> data \<noteq> [])"
proof (intro conjI impI)
  show "create_stats_display is_up now [] width height = Inl StopIteration"
    by (rule create_stats_display_empty)
next
  assume "\<exists>lines. create_stats_display is_up now data width height = Inr lines"
  then show "data \<noteq> []"
    by (auto simp: create_stats_display_empty)
qed

theorem empty_state_raises_witness:
  "create_stats_display all_up 0 [] 19 40 = Inl StopIteration \<and>
   (\<exists>lines. create_stats_display all_up 0
       (update_data [(''eth0'', (2048, 4096))] [(''eth0'', (1024, 2048))] 60 epoch []) 19 40 = Inr lines) \<and>
   update_data [(''eth0'', (2048, 4096))] [(''eth0'', (1024, 2048))] 60 epoch [] \<noteq> []"
proof -
  have "\<exists>lines. create_stats_display all_up 0
       (update_data [(''eth0'', (2048, 4096))] [(''eth0'', (1024, 2048))] 60 epoch []) 19 40 = Inr lines"
    using create_stats_display_length [of "update_data [(''eth0'', (2048, 4096))] [(''eth0'', (1024, 2048))] 60 epoch []"
      all_up 0 19 40]
    by (auto simp: update_two_snapshots)
  then show ?thesis
    using empty_state_raises [of all_up 0 19 40
      "update_data [(''eth0'', (2048, 4096))] [(''eth0'', (1024, 2048))] 60 epoch []"]
    by blast
qed

subsection \<open>The upper bound of the y axis\<close>










end
